theory Spec2Isabelle
  imports Main "HOL-Library.Word"
begin

unbundle bit_operations_syntax

section \<open>Status model (gsm/Modem.h)\<close>

datatype ModemStatus = Ok | PowerOnFailure | AutoBaudFailure | CommandError

datatype GsmStatus = Ok | NoNetwork | Roaming | Searching

datatype SimStatus = Ok | NotInserted | Locked | BadPin

datatype TcpStatus = Ok | GprsError | TlsError | ConnectionError

subsection \<open>NetworkInfo\<close>

text \<open>
  \<^verbatim>\<open>union { struct { unsigned mcc : 10, mnc : 10, mncDigits : 4; }; unsigned raw; };\<close>

  The object is one \<^verbatim>\<open>unsigned\<close> (32 bits). The three bit-fields are allocated from the
  least significant bit upwards, as the compilers of the little-endian targets of the
  library do: \<^verbatim>\<open>mcc\<close> in bits 0..9, \<^verbatim>\<open>mnc\<close> in bits 10..19, \<^verbatim>\<open>mncDigits\<close> in bits
  20..23; bits 24..31 belong to no field.
\<close>

record NetworkInfo =
  raw :: "32 word"

text \<open>Reading and writing a bit-field of \<open>w\<close> bits at bit offset \<open>off\<close> of the word.\<close>

definition bitfield_get :: "nat \<Rightarrow> nat \<Rightarrow> 32 word \<Rightarrow> 32 word" where
  "bitfield_get off w r = take_bit w (drop_bit off r)"

definition bitfield_set :: "nat \<Rightarrow> nat \<Rightarrow> 32 word \<Rightarrow> 32 word \<Rightarrow> 32 word" where
  "bitfield_set off w v r = (r AND NOT (push_bit off (mask w))) OR push_bit off (take_bit w v)"

text \<open>
  \<^verbatim>\<open>constexpr NetworkInfo(unsigned mcc, unsigned mnc, unsigned mncDigits)
      : mcc(mcc), mnc(mnc), mncDigits(mncDigits) {}\<close>

  The member initialisers store into the three bit-fields in declaration order; a store
  into a bit-field keeps the low bits of the value. Nothing writes bits 24..31, so the
  model takes the previous contents of the storage as \<open>storage\<close>.
\<close>

definition NetworkInfo_ctor :: "32 word \<Rightarrow> 32 word \<Rightarrow> 32 word \<Rightarrow> 32 word \<Rightarrow> NetworkInfo" where
  "NetworkInfo_ctor storage mcc mnc mncDigits =
     \<lparr>raw = bitfield_set 20 4 mncDigits (bitfield_set 10 10 mnc (bitfield_set 0 10 mcc storage))\<rparr>"

text \<open>\<^verbatim>\<open>constexpr NetworkInfo() : raw(0) {}\<close>\<close>

definition NetworkInfo_default :: NetworkInfo where
  "NetworkInfo_default = \<lparr>raw = 0\<rparr>"

text \<open>\<^verbatim>\<open>unsigned Mcc() const { return mcc; }\<close> and its two siblings.\<close>

definition Mcc :: "NetworkInfo \<Rightarrow> 32 word" where
  "Mcc ni = bitfield_get 0 10 (raw ni)"

definition Mnc :: "NetworkInfo \<Rightarrow> 32 word" where
  "Mnc ni = bitfield_get 10 10 (raw ni)"

definition MncDigits :: "NetworkInfo \<Rightarrow> 32 word" where
  "MncDigits ni = bitfield_get 20 4 (raw ni)"

text \<open>
  Every public member function of the class is \<^verbatim>\<open>const\<close>. A call is modelled as taking the
  object and returning the result together with the object as the call leaves it.
\<close>

datatype NetworkInfo_call = Call_Mcc | Call_Mnc | Call_MncDigits

fun NetworkInfo_invoke :: "NetworkInfo_call \<Rightarrow> NetworkInfo \<Rightarrow> 32 word \<times> NetworkInfo" where
  "NetworkInfo_invoke Call_Mcc ni = (Mcc ni, ni)"
| "NetworkInfo_invoke Call_Mnc ni = (Mnc ni, ni)"
| "NetworkInfo_invoke Call_MncDigits ni = (MncDigits ni, ni)"

fun NetworkInfo_invoke_all :: "NetworkInfo_call list \<Rightarrow> NetworkInfo \<Rightarrow> NetworkInfo" where
  "NetworkInfo_invoke_all [] ni = ni"
| "NetworkInfo_invoke_all (c # cs) ni = NetworkInfo_invoke_all cs (snd (NetworkInfo_invoke c ni))"

section \<open>Collaborators declared outside gsm/Modem.h\<close>

text \<open>
  Modelled from the spec: class \<^verbatim>\<open>Timeout\<close> comes from \<^verbatim>\<open>kernel/kernel.h\<close>, which is not
  among the sources. The specification describes a timeout as a relative duration, an
  absolute instant or the "infinite" sentinel; the header itself uses
  \<^verbatim>\<open>Timeout::Seconds(n)\<close> and \<^verbatim>\<open>Timeout::Infinite\<close>.
\<close>

datatype Timeout = Seconds nat | Absolute nat | Infinite

text \<open>
  Modelled from the spec: class \<^verbatim>\<open>Socket\<close> comes from \<^verbatim>\<open>gsm/Socket.h\<close>, which is not among
  the sources. The specification gives a socket a channel number, a "secure" flag and an
  allocation flag; the header reads them as \<^verbatim>\<open>s.channel\<close>, \<^verbatim>\<open>s.IsSecure()\<close> and
  \<^verbatim>\<open>s.IsAllocated()\<close>, and compares the channel with a \<^verbatim>\<open>uint8_t\<close>. Host and port are the
  remaining arguments of \<^verbatim>\<open>CreateSocket\<close>.
\<close>

record Socket =
  channel :: "8 word"
  secure :: bool
  allocated :: bool
  host :: string
  port :: "32 word"

definition IsAllocated :: "Socket \<Rightarrow> bool" where
  "IsAllocated s = allocated s"

definition IsSecure :: "Socket \<Rightarrow> bool" where
  "IsSecure s = secure s"

text \<open>
  Objects that the modem refers to by pointer (tasks, sockets) are named by their address.
  A null pointer is \<open>None\<close>.
\<close>

type_synonym addr = nat

text \<open>
  \<^verbatim>\<open>SelfLinkedList<Socket> sockets\<close>: the sockets linked into the pool, in link order, each
  with the address at which it lives.
\<close>

type_synonym socket_pool = "(addr \<times> Socket) list"

text \<open>\<^verbatim>\<open>FNV1a\<close> is a 32-bit hash; an \<^verbatim>\<open>AsyncDelegate<FNV1a>\<close> is named by a handle.\<close>

type_synonym FNV1a = "32 word"
type_synonym AsyncDelegate = nat

text \<open>
  \<^verbatim>\<open>ASSERT(cond)\<close> is a macro of the kernel library. A failed assertion is modelled as the
  error result \<open>AssertionFailed\<close>: the operation does not take place.
\<close>

datatype error = AssertionFailed

section \<open>class Modem\<close>

text \<open>
  \<^verbatim>\<open>enum struct ATResult : int8_t
  { OK, Error, Timeout, Failure, Pending = -1, PendingWasOK = -2, PendingWaitOK = -3 };\<close>
\<close>

datatype ATResult = OK | Error | Timeout | Failure | Pending | PendingWasOK | PendingWaitOK

text \<open>The enumerator values, in the underlying type \<^verbatim>\<open>int8_t\<close>.\<close>

fun ATResult_value :: "ATResult \<Rightarrow> 8 word" where
  "ATResult_value OK = 0"
| "ATResult_value Error = 1"
| "ATResult_value Timeout = 2"
| "ATResult_value Failure = 3"
| "ATResult_value Pending = - 1"
| "ATResult_value PendingWasOK = - 2"
| "ATResult_value PendingWaitOK = - 3"

text \<open>
  \<^verbatim>\<open>enum struct Signal { None = 0, TaskActive = BIT(0), RxTaskActive = BIT(1),
  NetworkActive = BIT(2), ATLock = BIT(4) } signals = Signal::None;\<close>
  with the flag operators of \<^verbatim>\<open>DECLARE_FLAG_ENUM\<close>. The flags are the bits of a word.
\<close>

definition BIT :: "nat \<Rightarrow> 32 word" where
  "BIT n = push_bit n 1"

definition Signal_None :: "32 word" where
  "Signal_None = 0"

definition Signal_TaskActive :: "32 word" where
  "Signal_TaskActive = BIT 0"

definition Signal_RxTaskActive :: "32 word" where
  "Signal_RxTaskActive = BIT 1"

definition Signal_NetworkActive :: "32 word" where
  "Signal_NetworkActive = BIT 2"

definition Signal_ATLock :: "32 word" where
  "Signal_ATLock = BIT 4"

text \<open>
  The data members of \<^verbatim>\<open>Modem\<close>, in declaration order. The pipe reader and writer, the
  options reference, the pipe position and the field iterator are named by handles.
\<close>

record Modem =
  rx :: nat
  tx :: nat
  options :: addr
  sockets :: socket_pool
  signals :: "32 word"
  process :: bool
  atResult :: ATResult
  lineEnd :: nat
  lineFields :: nat
  atTask :: "addr option"
  atNextTimeout :: Timeout
  atResponse :: AsyncDelegate
  atTransmitSock :: "addr option"
  atTransmitLen :: nat
  rxSock :: "addr option"
  rxLen :: nat
  modemStatus :: ModemStatus
  gsmStatus :: GsmStatus
  simStatus :: SimStatus
  tcpStatus :: TcpStatus
  netInfo :: NetworkInfo
  rssi :: "8 word"
  atTimeout :: Timeout
  connectTimeout :: Timeout
  disconnectTimeout :: Timeout
  powerOffTimeout :: Timeout

text \<open>
  \<^verbatim>\<open>Modem(io::DuplexPipe pipe, ModemOptions& options) : rx(pipe), tx(pipe), options(options) {}\<close>
  together with the default member initialisers. \<open>storage\<close> is the object before
  construction: the members with no initialiser in this header (\<^verbatim>\<open>atTransmitSock\<close>,
  \<^verbatim>\<open>atTransmitLen\<close>, \<^verbatim>\<open>rxSock\<close>) and those default-constructed by classes declared
  elsewhere (\<^verbatim>\<open>lineEnd\<close>, \<^verbatim>\<open>lineFields\<close>, \<^verbatim>\<open>atNextTimeout\<close>, \<^verbatim>\<open>atResponse\<close>) keep whatever
  it holds. A default-constructed \<^verbatim>\<open>SelfLinkedList\<close> is empty.
\<close>

definition Modem_ctor :: "nat \<Rightarrow> addr \<Rightarrow> Modem \<Rightarrow> Modem" where
  "Modem_ctor pipe opts storage = storage
     \<lparr> rx := pipe, tx := pipe, options := opts,
       sockets := [],
       signals := Signal_None,
       process := False,
       atResult := OK,
       atTask := None,
       rxLen := 0,
       modemStatus := ModemStatus.Ok,
       gsmStatus := GsmStatus.Ok,
       simStatus := SimStatus.Ok,
       tcpStatus := TcpStatus.Ok,
       netInfo := NetworkInfo_default,
       rssi := 0,
       atTimeout := Seconds 5,
       connectTimeout := Seconds 30,
       disconnectTimeout := Seconds 10,
       powerOffTimeout := Infinite \<rparr>"

subsection \<open>Status getters\<close>

definition get_ModemStatus :: "Modem \<Rightarrow> ModemStatus" where
  "get_ModemStatus m = modemStatus m"

definition get_GsmStatus :: "Modem \<Rightarrow> GsmStatus" where
  "get_GsmStatus m = gsmStatus m"

definition get_SimStatus :: "Modem \<Rightarrow> SimStatus" where
  "get_SimStatus m = simStatus m"

definition get_TcpStatus :: "Modem \<Rightarrow> TcpStatus" where
  "get_TcpStatus m = tcpStatus m"

definition get_NetworkInfo :: "Modem \<Rightarrow> NetworkInfo" where
  "get_NetworkInfo m = netInfo m"

text \<open>\<^verbatim>\<open>bool IsActive() const { return !!(signals & Signal::TaskActive); }\<close>\<close>

definition IsActive :: "Modem \<Rightarrow> bool" where
  "IsActive m = (signals m AND Signal_TaskActive \<noteq> 0)"

text \<open>\<^verbatim>\<open>int Rssi() const { return rssi; }\<close>: the \<^verbatim>\<open>int8_t\<close> member, sign-extended.\<close>

definition Rssi :: "Modem \<Rightarrow> int" where
  "Rssi m = sint (rssi m)"

subsection \<open>Timeout getters and setters\<close>

text \<open>
  \<^verbatim>\<open>void ATTimeout(Timeout timeout) { ASSERT(timeout.IsRelative()); atTimeout = timeout; }\<close>
  and its three siblings. \<^verbatim>\<open>Timeout::IsRelative\<close> is declared by the kernel library, so
  each setter takes it as the parameter \<open>IsRelative\<close>.
\<close>

definition ATTimeout :: "Modem \<Rightarrow> Timeout" where
  "ATTimeout m = atTimeout m"

definition set_ATTimeout :: "(Timeout \<Rightarrow> bool) \<Rightarrow> Timeout \<Rightarrow> Modem \<Rightarrow> error + Modem" where
  "set_ATTimeout IsRelative timeout m =
     (if IsRelative timeout then Inr (m\<lparr>atTimeout := timeout\<rparr>) else Inl AssertionFailed)"

definition ConnectTimeout :: "Modem \<Rightarrow> Timeout" where
  "ConnectTimeout m = connectTimeout m"

definition set_ConnectTimeout :: "(Timeout \<Rightarrow> bool) \<Rightarrow> Timeout \<Rightarrow> Modem \<Rightarrow> error + Modem" where
  "set_ConnectTimeout IsRelative timeout m =
     (if IsRelative timeout then Inr (m\<lparr>connectTimeout := timeout\<rparr>) else Inl AssertionFailed)"

definition DisconnectTimeout :: "Modem \<Rightarrow> Timeout" where
  "DisconnectTimeout m = disconnectTimeout m"

definition set_DisconnectTimeout :: "(Timeout \<Rightarrow> bool) \<Rightarrow> Timeout \<Rightarrow> Modem \<Rightarrow> error + Modem" where
  "set_DisconnectTimeout IsRelative timeout m =
     (if IsRelative timeout then Inr (m\<lparr>disconnectTimeout := timeout\<rparr>) else Inl AssertionFailed)"

definition PowerOffTimeout :: "Modem \<Rightarrow> Timeout" where
  "PowerOffTimeout m = powerOffTimeout m"

definition set_PowerOffTimeout :: "(Timeout \<Rightarrow> bool) \<Rightarrow> Timeout \<Rightarrow> Modem \<Rightarrow> error + Modem" where
  "set_PowerOffTimeout IsRelative timeout m =
     (if IsRelative timeout then Inr (m\<lparr>powerOffTimeout := timeout\<rparr>) else Inl AssertionFailed)"

subsection \<open>Configuring the next AT call\<close>

text \<open>
  \<^verbatim>\<open>bool NextATTimeout(Timeout timeout)
  { ASSERT(atTask == &kernel::Task::Current()); atNextTimeout = timeout; return false; }\<close>

  \<open>current\<close> is the address of \<^verbatim>\<open>kernel::Task::Current()\<close>, the task that makes the call.
\<close>

definition NextATTimeout :: "addr \<Rightarrow> Timeout \<Rightarrow> Modem \<Rightarrow> error + bool \<times> Modem" where
  "NextATTimeout current timeout m =
     (if atTask m = Some current then Inr (False, m\<lparr>atNextTimeout := timeout\<rparr>)
      else Inl AssertionFailed)"

text \<open>
  \<^verbatim>\<open>bool NextATResponse(AsyncDelegate<FNV1a> handler)
  { ASSERT(atTask == &kernel::Task::Current()); atResponse = handler; return false; }\<close>
\<close>

definition NextATResponse :: "addr \<Rightarrow> AsyncDelegate \<Rightarrow> Modem \<Rightarrow> error + bool \<times> Modem" where
  "NextATResponse current handler m =
     (if atTask m = Some current then Inr (False, m\<lparr>atResponse := handler\<rparr>)
      else Inl AssertionFailed)"

text \<open>
  \<^verbatim>\<open>bool NextATTransmit(Socket& sock, size_t len)
  { ASSERT(atTask == &kernel::Task::Current()); atTransmitSock = &sock; atTransmitLen = len;
    return false; }\<close>
\<close>

definition NextATTransmit :: "addr \<Rightarrow> addr \<Rightarrow> nat \<Rightarrow> Modem \<Rightarrow> error + bool \<times> Modem" where
  "NextATTransmit current sock len m =
     (if atTask m = Some current
      then Inr (False, m\<lparr>atTransmitSock := Some sock, atTransmitLen := len\<rparr>)
      else Inl AssertionFailed)"

text \<open>
  \<^verbatim>\<open>void ATComplete() { ASSERT(atResult == ATResult::Pending); atResult = ATResult::OK; }\<close>
\<close>

definition ATComplete :: "Modem \<Rightarrow> error + Modem" where
  "ATComplete m =
     (if atResult m = Pending then Inr (m\<lparr>atResult := OK\<rparr>) else Inl AssertionFailed)"

subsection \<open>Default lifecycle and event hooks\<close>

text \<open>
  \<^verbatim>\<open>virtual async(PowerOnImpl) async_def_return(true);\<close> and its siblings: the body of the
  asynchronous function is a single return of \<^verbatim>\<open>true\<close>. Each hook is a member function, so
  the model passes the modem through.
\<close>

definition PowerOnImpl :: "Modem \<Rightarrow> bool \<times> Modem" where
  "PowerOnImpl m = (True, m)"

definition PowerOffImpl :: "Modem \<Rightarrow> bool \<times> Modem" where
  "PowerOffImpl m = (True, m)"

definition StartImpl :: "Modem \<Rightarrow> bool \<times> Modem" where
  "StartImpl m = (True, m)"

definition UnlockSimImpl :: "Modem \<Rightarrow> bool \<times> Modem" where
  "UnlockSimImpl m = (True, m)"

definition ConnectNetworkImpl :: "Modem \<Rightarrow> bool \<times> Modem" where
  "ConnectNetworkImpl m = (True, m)"

definition DisconnectNetworkImpl :: "Modem \<Rightarrow> bool \<times> Modem" where
  "DisconnectNetworkImpl m = (True, m)"

definition StopImpl :: "Modem \<Rightarrow> bool \<times> Modem" where
  "StopImpl m = (True, m)"

definition OnEvent :: "FNV1a \<Rightarrow> Modem \<Rightarrow> bool \<times> Modem" where
  "OnEvent ident m = (True, m)"

subsection \<open>Socket lookup\<close>

text \<open>
  \<^verbatim>\<open>Socket* FindSocket(uint8_t channel)
  { for (auto& s: sockets) { if (s.IsAllocated() && s.channel == channel) return &s; }
    return NULL; }\<close>
\<close>

fun FindSocket_loop :: "socket_pool \<Rightarrow> 8 word \<Rightarrow> addr option" where
  "FindSocket_loop [] ch = None"
| "FindSocket_loop ((a, s) # rest) ch =
     (if IsAllocated s \<and> channel s = ch then Some a else FindSocket_loop rest ch)"

definition FindSocket :: "Modem \<Rightarrow> 8 word \<Rightarrow> addr option" where
  "FindSocket m ch = FindSocket_loop (sockets m) ch"

text \<open>
  \<^verbatim>\<open>Socket* FindSocket(uint8_t channel, bool secure)
  { for (auto& s: sockets)
    { if (s.IsAllocated() && s.IsSecure() == secure && s.channel == channel) return &s; }
    return NULL; }\<close>
\<close>

fun FindSocket_secure_loop :: "socket_pool \<Rightarrow> 8 word \<Rightarrow> bool \<Rightarrow> addr option" where
  "FindSocket_secure_loop [] ch sec = None"
| "FindSocket_secure_loop ((a, s) # rest) ch sec =
     (if IsAllocated s \<and> IsSecure s = sec \<and> channel s = ch then Some a
      else FindSocket_secure_loop rest ch sec)"

definition FindSocket_secure :: "Modem \<Rightarrow> 8 word \<Rightarrow> bool \<Rightarrow> addr option" where
  "FindSocket_secure m ch sec = FindSocket_secure_loop (sockets m) ch sec"

subsection \<open>Socket pool operations\<close>

text \<open>
  \<^verbatim>\<open>virtual bool TryAllocateImpl(Socket& sock) = 0;\<close> is pure virtual: the vendor subclass
  supplies it. The model takes it as a parameter of type \<open>allocate_hook\<close>: it sees the modem
  and the socket, and either rejects the request (\<open>None\<close>, for \<^verbatim>\<open>false\<close>) or accepts it
  having stored a channel number in the socket (\<open>Some channel\<close>, for \<^verbatim>\<open>true\<close>).
\<close>

type_synonym allocate_hook = "Modem \<Rightarrow> Socket \<Rightarrow> 8 word option"

text \<open>
  Modelled from the spec: \<^verbatim>\<open>Modem::CreateSocket\<close> is declared in the header and defined in
  \<^verbatim>\<open>Modem.cpp\<close>, which is not among the sources. The specification: "attempts to reserve a
  free channel via the vendor-specific allocation hook, constructs a Socket bound to that
  channel/security flag, links it into the pool, and returns a reference. Fails (returns a
  null indicator) if no channel is available or the hook rejects the request", and does so
  "without mutating the socket pool". \<open>a\<close> is the address of the new socket object. The
  hook's signature takes the socket, so the socket is constructed first (not yet allocated,
  its channel not yet assigned) and receives the channel when the hook accepts.
\<close>

definition Socket_ctor :: "string \<Rightarrow> 32 word \<Rightarrow> bool \<Rightarrow> Socket" where
  "Socket_ctor h p tls = \<lparr>channel = 0, secure = tls, allocated = False, host = h, port = p\<rparr>"

definition CreateSocket ::
    "allocate_hook \<Rightarrow> addr \<Rightarrow> string \<Rightarrow> 32 word \<Rightarrow> bool \<Rightarrow> Modem \<Rightarrow> addr option \<times> Modem" where
  "CreateSocket TryAllocateImpl a h p tls m =
     (let sock = Socket_ctor h p tls
      in case TryAllocateImpl m sock of
           None \<Rightarrow> (None, m)
         | Some ch \<Rightarrow>
             (Some a, m\<lparr>sockets := sockets m @ [(a, sock\<lparr>channel := ch, allocated := True\<rparr>)]\<rparr>))"







text \<open>
  A vendor hook with one channel per security class: channel 0, granted while no allocated
  socket of that class holds it.
\<close>

definition single_channel_hook :: allocate_hook where
  "single_channel_hook m sock =
     (if FindSocket_secure m 0 (IsSecure sock) = None then Some 0 else None)"

text \<open>A concrete modem object for the examples: zeroed storage, then constructed.\<close>

definition zero_storage :: Modem where
  "zero_storage =
     \<lparr> rx = 0, tx = 0, options = 0, sockets = [], signals = 0, process = False,
       atResult = OK, lineEnd = 0, lineFields = 0, atTask = None,
       atNextTimeout = Infinite, atResponse = 0, atTransmitSock = None, atTransmitLen = 0,
       rxSock = None, rxLen = 0,
       modemStatus = ModemStatus.Ok, gsmStatus = GsmStatus.Ok, simStatus = SimStatus.Ok,
       tcpStatus = TcpStatus.Ok, netInfo = \<lparr>raw = 0\<rparr>, rssi = 0,
       atTimeout = Infinite, connectTimeout = Infinite, disconnectTimeout = Infinite,
       powerOffTimeout = Infinite \<rparr>"

definition fresh_modem :: Modem where
  "fresh_modem = Modem_ctor 1 2 zero_storage"

text \<open>
  An example of the kernel's \<^verbatim>\<open>IsRelative\<close> for the examples: every timeout but an absolute
  instant counts as relative.
\<close>

fun not_absolute :: "Timeout \<Rightarrow> bool" where
  "not_absolute (Absolute t) = False"
| "not_absolute (Seconds n) = True"
| "not_absolute Infinite = True"

text \<open>
  A modem whose pool links three sockets on channel 0: a released plain one, an allocated
  plain one and an allocated secure one.
\<close>

definition three_socket_modem :: Modem where
  "three_socket_modem = fresh_modem
     \<lparr>sockets :=
        [(50, \<lparr>channel = 0, secure = False, allocated = False, host = ''a.example'', port = 80\<rparr>),
         (100, \<lparr>channel = 0, secure = False, allocated = True, host = ''b.example'', port = 80\<rparr>),
         (200, \<lparr>channel = 0, secure = True, allocated = True, host = ''c.example'', port = 443\<rparr>)]\<rparr>"

text \<open>
  The modem after a plain and then a secure socket have been created through the
  single-channel hook.
\<close>

definition plain_then_secure :: Modem where
  "plain_then_secure =
     snd (CreateSocket single_channel_hook 200 ''example.com'' 443 True
       (snd (CreateSocket single_channel_hook 100 ''example.com'' 80 False fresh_modem)))"



section \<open>NetworkInfo: the packed fields\<close>

lemma bitfield_get_set_same:
  "off + w \<le> 32 \<Longrightarrow> bitfield_get off w (bitfield_set off w v r) = take_bit w v"
  unfolding bitfield_get_def bitfield_set_def
  by (rule bit_word_eqI) (auto simp: bit_simps)

lemma bitfield_get_set_other:
  "off + w \<le> off' \<or> off' + w' \<le> off \<Longrightarrow>
     bitfield_get off w (bitfield_set off' w' v r) = bitfield_get off w r"
  unfolding bitfield_get_def bitfield_set_def
  by (rule bit_word_eqI) (auto simp: bit_simps dest: bit_imp_le_length)

lemma unat_take_bit_mod: "unat (take_bit n (a :: 32 word)) = unat a mod 2 ^ n"
  by (subst unsigned_take_bit_eq) (rule take_bit_eq_mod)

lemma Mcc_ctor: "Mcc (NetworkInfo_ctor storage mcc mnc mncDigits) = take_bit 10 mcc"
  by (simp add: Mcc_def NetworkInfo_ctor_def bitfield_get_set_same bitfield_get_set_other)

lemma Mnc_ctor: "Mnc (NetworkInfo_ctor storage mcc mnc mncDigits) = take_bit 10 mnc"
  by (simp add: Mnc_def NetworkInfo_ctor_def bitfield_get_set_same bitfield_get_set_other)

lemma MncDigits_ctor: "MncDigits (NetworkInfo_ctor storage mcc mnc mncDigits) = take_bit 4 mncDigits"
  by (simp add: MncDigits_def NetworkInfo_ctor_def bitfield_get_set_same)

lemma NetworkInfo_invoke_keeps: "snd (NetworkInfo_invoke c ni) = ni"
  by (cases c) simp_all

lemma NetworkInfo_invoke_all_keeps: "NetworkInfo_invoke_all cs ni = ni"
  by (induction cs) (simp_all add: NetworkInfo_invoke_keeps)

text \<open>
  Claim C9. \<^verbatim>\<open>NetworkInfo\<close> packs the mobile country code into 10 bits, the mobile network
  code into 10 bits and the digit count into 4 bits of one word: after
  \<^verbatim>\<open>NetworkInfo(mcc, mnc, digits)\<close>, \<^verbatim>\<open>Mcc()\<close> is \<open>mcc mod 2^10\<close>, \<^verbatim>\<open>Mnc()\<close> is
  \<open>mnc mod 2^10\<close> and \<^verbatim>\<open>MncDigits()\<close> is \<open>digits mod 2^4\<close>, whatever the storage held
  before; the default-constructed value reads 0 in all three; and no sequence of calls of
  the member functions changes the value.
\<close>

theorem NetworkInfo_packed_fields:
  "unat (Mcc (NetworkInfo_ctor storage mcc mnc mncDigits)) = unat mcc mod 2 ^ 10 \<and>
   unat (Mnc (NetworkInfo_ctor storage mcc mnc mncDigits)) = unat mnc mod 2 ^ 10 \<and>
   unat (MncDigits (NetworkInfo_ctor storage mcc mnc mncDigits)) = unat mncDigits mod 2 ^ 4 \<and>
   Mcc NetworkInfo_default = 0 \<and> Mnc NetworkInfo_default = 0 \<and>
   MncDigits NetworkInfo_default = 0 \<and>
   NetworkInfo_invoke_all calls ni = ni"
proof -
  have "Mcc NetworkInfo_default = 0" "Mnc NetworkInfo_default = 0"
       "MncDigits NetworkInfo_default = 0"
    by (simp_all add: Mcc_def Mnc_def MncDigits_def NetworkInfo_default_def bitfield_get_def)
  then show ?thesis
    by (simp only: Mcc_ctor Mnc_ctor MncDigits_ctor unat_take_bit_mod
        NetworkInfo_invoke_all_keeps simp_thms)
qed

section \<open>The freshly constructed modem\<close>

text \<open>
  Claim C10. A freshly constructed \<^verbatim>\<open>Modem\<close> is quiescent: the four status getters return
  \<^verbatim>\<open>Ok\<close>, no signal flag is set and \<^verbatim>\<open>IsActive()\<close> is false, \<^verbatim>\<open>Rssi()\<close> is 0,
  \<^verbatim>\<open>NetworkInfo()\<close> is the all-zero value, and the timeouts are 5 seconds (AT), 30 seconds
  (connect), 10 seconds (disconnect) and infinite (power-off).
\<close>

theorem Modem_ctor_defaults:
  "get_ModemStatus (Modem_ctor pipe opts storage) = ModemStatus.Ok \<and>
   get_GsmStatus (Modem_ctor pipe opts storage) = GsmStatus.Ok \<and>
   get_SimStatus (Modem_ctor pipe opts storage) = SimStatus.Ok \<and>
   get_TcpStatus (Modem_ctor pipe opts storage) = TcpStatus.Ok \<and>
   signals (Modem_ctor pipe opts storage) = 0 \<and>
   IsActive (Modem_ctor pipe opts storage) = False \<and>
   Rssi (Modem_ctor pipe opts storage) = 0 \<and>
   raw (get_NetworkInfo (Modem_ctor pipe opts storage)) = 0 \<and>
   Mcc (get_NetworkInfo (Modem_ctor pipe opts storage)) = 0 \<and>
   Mnc (get_NetworkInfo (Modem_ctor pipe opts storage)) = 0 \<and>
   MncDigits (get_NetworkInfo (Modem_ctor pipe opts storage)) = 0 \<and>
   ATTimeout (Modem_ctor pipe opts storage) = Seconds 5 \<and>
   ConnectTimeout (Modem_ctor pipe opts storage) = Seconds 30 \<and>
   DisconnectTimeout (Modem_ctor pipe opts storage) = Seconds 10 \<and>
   PowerOffTimeout (Modem_ctor pipe opts storage) = Infinite"
  by (simp add: Modem_ctor_def get_ModemStatus_def get_GsmStatus_def get_SimStatus_def
      get_TcpStatus_def get_NetworkInfo_def IsActive_def Rssi_def Signal_None_def
      NetworkInfo_default_def Mcc_def Mnc_def MncDigits_def bitfield_get_def
      ATTimeout_def ConnectTimeout_def DisconnectTimeout_def PowerOffTimeout_def)

section \<open>Timeout configuration\<close>

text \<open>
  Claim C7. The four operation timeouts are independently settable: for every value \<open>t\<close>
  that the setter's assertion accepts, the setter succeeds, the matching getter then
  returns \<open>t\<close>, and the other three timeouts are unchanged.
\<close>

theorem timeout_setters_independent:
  assumes "IsRelative t"
  shows "(\<exists>m'. set_ATTimeout IsRelative t m = Inr m' \<and> ATTimeout m' = t \<and>
            ConnectTimeout m' = ConnectTimeout m \<and>
            DisconnectTimeout m' = DisconnectTimeout m \<and>
            PowerOffTimeout m' = PowerOffTimeout m) \<and>
         (\<exists>m'. set_ConnectTimeout IsRelative t m = Inr m' \<and> ConnectTimeout m' = t \<and>
            ATTimeout m' = ATTimeout m \<and>
            DisconnectTimeout m' = DisconnectTimeout m \<and>
            PowerOffTimeout m' = PowerOffTimeout m) \<and>
         (\<exists>m'. set_DisconnectTimeout IsRelative t m = Inr m' \<and> DisconnectTimeout m' = t \<and>
            ATTimeout m' = ATTimeout m \<and>
            ConnectTimeout m' = ConnectTimeout m \<and>
            PowerOffTimeout m' = PowerOffTimeout m) \<and>
         (\<exists>m'. set_PowerOffTimeout IsRelative t m = Inr m' \<and> PowerOffTimeout m' = t \<and>
            ATTimeout m' = ATTimeout m \<and>
            ConnectTimeout m' = ConnectTimeout m \<and>
            DisconnectTimeout m' = DisconnectTimeout m)"
  using assms
  by (simp add: set_ATTimeout_def set_ConnectTimeout_def set_DisconnectTimeout_def
      set_PowerOffTimeout_def ATTimeout_def ConnectTimeout_def DisconnectTimeout_def
      PowerOffTimeout_def)

theorem timeout_setters_independent_witness:
  "not_absolute Infinite \<and>
   (\<exists>m'. set_ATTimeout not_absolute Infinite fresh_modem = Inr m' \<and>
      ATTimeout m' = Infinite \<and> ConnectTimeout m' = Seconds 30 \<and>
      DisconnectTimeout m' = Seconds 10 \<and> PowerOffTimeout m' = Infinite) \<and>
   (\<exists>m'. set_DisconnectTimeout not_absolute Infinite fresh_modem = Inr m' \<and>
      DisconnectTimeout m' = Infinite \<and> ATTimeout m' = Seconds 5 \<and>
      ConnectTimeout m' = Seconds 30 \<and> PowerOffTimeout m' = Infinite)"
proof -
  have rel: "not_absolute Infinite" by simp
  have defaults: "ATTimeout fresh_modem = Seconds 5" "ConnectTimeout fresh_modem = Seconds 30"
      "DisconnectTimeout fresh_modem = Seconds 10" "PowerOffTimeout fresh_modem = Infinite"
    by (simp_all add: ATTimeout_def ConnectTimeout_def DisconnectTimeout_def
        PowerOffTimeout_def fresh_modem_def Modem_ctor_def)
  from timeout_setters_independent [of not_absolute Infinite fresh_modem, OF rel] rel
  show ?thesis unfolding defaults by blast
qed

section \<open>The AT call state\<close>

text \<open>
  Claim C1. Only the holder of the AT lock may configure the next call: each of
  \<^verbatim>\<open>NextATTimeout\<close>, \<^verbatim>\<open>NextATResponse\<close> and \<^verbatim>\<open>NextATTransmit\<close> asserts that the current task
  is the recorded lock owner. When it is, each sets exactly its own next-call field
  (\<^verbatim>\<open>atNextTimeout\<close>; \<^verbatim>\<open>atResponse\<close>; \<^verbatim>\<open>atTransmitSock\<close> and \<^verbatim>\<open>atTransmitLen\<close>) and returns
  false, for every argument value; when it is not, the assertion fails.
\<close>

theorem NextAT_only_lock_owner:
  "(atTask m = Some current \<longrightarrow>
      NextATTimeout current timeout m = Inr (False, m\<lparr>atNextTimeout := timeout\<rparr>) \<and>
      NextATResponse current handler m = Inr (False, m\<lparr>atResponse := handler\<rparr>) \<and>
      NextATTransmit current sock len m
        = Inr (False, m\<lparr>atTransmitSock := Some sock, atTransmitLen := len\<rparr>)) \<and>
   (atTask m \<noteq> Some current \<longrightarrow>
      NextATTimeout current timeout m = Inl AssertionFailed \<and>
      NextATResponse current handler m = Inl AssertionFailed \<and>
      NextATTransmit current sock len m = Inl AssertionFailed)"
  by (simp add: NextATTimeout_def NextATResponse_def NextATTransmit_def)

theorem NextAT_only_lock_owner_witness:
  "atTask (fresh_modem\<lparr>atTask := Some 7\<rparr>) = Some 7 \<and>
   NextATTimeout 7 (Seconds 3) (fresh_modem\<lparr>atTask := Some 7\<rparr>)
     = Inr (False, fresh_modem\<lparr>atTask := Some 7, atNextTimeout := Seconds 3\<rparr>) \<and>
   NextATResponse 7 11 (fresh_modem\<lparr>atTask := Some 7\<rparr>)
     = Inr (False, fresh_modem\<lparr>atTask := Some 7, atResponse := 11\<rparr>) \<and>
   NextATTransmit 7 100 64 (fresh_modem\<lparr>atTask := Some 7\<rparr>)
     = Inr (False, fresh_modem\<lparr>atTask := Some 7, atTransmitSock := Some 100, atTransmitLen := 64\<rparr>) \<and>
   atTask fresh_modem \<noteq> Some 7 \<and>
   NextATTimeout 7 (Seconds 3) fresh_modem = Inl AssertionFailed \<and>
   NextATResponse 7 11 fresh_modem = Inl AssertionFailed \<and>
   NextATTransmit 7 100 64 fresh_modem = Inl AssertionFailed"
proof -
  have owner: "atTask (fresh_modem\<lparr>atTask := Some 7\<rparr>) = Some 7" by simp
  have stranger: "atTask fresh_modem \<noteq> Some 7"
    by (simp add: fresh_modem_def Modem_ctor_def)
  from NextAT_only_lock_owner [of "fresh_modem\<lparr>atTask := Some 7\<rparr>" 7 "Seconds 3" 11 100 64]
       NextAT_only_lock_owner [of fresh_modem 7 "Seconds 3" 11 100 64] owner stranger
  show ?thesis by simp
qed

text \<open>
  Claim C2. The AT result code has four terminal classifications (\<^verbatim>\<open>OK\<close>, \<^verbatim>\<open>Error\<close>,
  \<^verbatim>\<open>Timeout\<close>, \<^verbatim>\<open>Failure\<close>), whose values are non-negative, and three pending sub-states
  (\<^verbatim>\<open>Pending\<close>, \<^verbatim>\<open>PendingWasOK\<close>, \<^verbatim>\<open>PendingWaitOK\<close>), whose values are negative in the signed
  8-bit underlying type; the seven values are pairwise different. \<^verbatim>\<open>ATComplete\<close> asserts
  that the result is exactly \<^verbatim>\<open>Pending\<close>; when it is, the result becomes \<^verbatim>\<open>OK\<close> and nothing
  else of the modem changes.
\<close>

theorem ATResult_encoding_and_ATComplete:
  "(sint (ATResult_value r) < 0 \<longleftrightarrow> r \<in> {Pending, PendingWasOK, PendingWaitOK}) \<and>
   (0 \<le> sint (ATResult_value r) \<longleftrightarrow> r \<in> {OK, Error, Timeout, Failure}) \<and>
   (ATResult_value r = ATResult_value r' \<longleftrightarrow> r = r') \<and>
   (atResult m = Pending \<longrightarrow> ATComplete m = Inr (m\<lparr>atResult := OK\<rparr>)) \<and>
   (atResult m \<noteq> Pending \<longrightarrow> ATComplete m = Inl AssertionFailed)"
proof -
  have neg: "sint (ATResult_value r) < 0 \<longleftrightarrow> r \<in> {Pending, PendingWasOK, PendingWaitOK}"
    by (cases r) simp_all
  have nonneg: "0 \<le> sint (ATResult_value r) \<longleftrightarrow> r \<in> {OK, Error, Timeout, Failure}"
    by (cases r) simp_all
  have inj: "ATResult_value r = ATResult_value r' \<longleftrightarrow> r = r'"
    by (cases r; cases r') simp_all
  show ?thesis
    using neg nonneg inj by (simp add: ATComplete_def)
qed

theorem ATResult_encoding_and_ATComplete_witness:
  "atResult (fresh_modem\<lparr>atResult := Pending\<rparr>) = Pending \<and>
   ATComplete (fresh_modem\<lparr>atResult := Pending\<rparr>) = Inr (fresh_modem\<lparr>atResult := OK\<rparr>) \<and>
   atResult (fresh_modem\<lparr>atResult := PendingWasOK\<rparr>) \<noteq> Pending \<and>
   ATComplete (fresh_modem\<lparr>atResult := PendingWasOK\<rparr>) = Inl AssertionFailed \<and>
   sint (ATResult_value Pending) < 0 \<and> 0 \<le> sint (ATResult_value Failure)"
proof -
  have p: "atResult (fresh_modem\<lparr>atResult := Pending\<rparr>) = Pending" by simp
  have q: "atResult (fresh_modem\<lparr>atResult := PendingWasOK\<rparr>) \<noteq> Pending" by simp
  from ATResult_encoding_and_ATComplete [of Pending Failure "fresh_modem\<lparr>atResult := Pending\<rparr>"]
       ATResult_encoding_and_ATComplete [of Failure Pending "fresh_modem\<lparr>atResult := PendingWasOK\<rparr>"]
       p q
  show ?thesis by simp
qed

section \<open>Default hooks\<close>

text \<open>
  Claim C8. Every default lifecycle and event hook (\<^verbatim>\<open>PowerOnImpl\<close>, \<^verbatim>\<open>PowerOffImpl\<close>,
  \<^verbatim>\<open>StartImpl\<close>, \<^verbatim>\<open>UnlockSimImpl\<close>, \<^verbatim>\<open>ConnectNetworkImpl\<close>, \<^verbatim>\<open>DisconnectNetworkImpl\<close>,
  \<^verbatim>\<open>StopImpl\<close>, \<^verbatim>\<open>OnEvent\<close>) returns true for every input and every modem state and leaves
  the modem as it was.
\<close>

theorem default_hooks_succeed:
  "PowerOnImpl m = (True, m) \<and> PowerOffImpl m = (True, m) \<and> StartImpl m = (True, m) \<and>
   UnlockSimImpl m = (True, m) \<and> ConnectNetworkImpl m = (True, m) \<and>
   DisconnectNetworkImpl m = (True, m) \<and> StopImpl m = (True, m) \<and>
   OnEvent ident m = (True, m)"
  by (simp add: PowerOnImpl_def PowerOffImpl_def StartImpl_def UnlockSimImpl_def
      ConnectNetworkImpl_def DisconnectNetworkImpl_def StopImpl_def OnEvent_def)

section \<open>Socket lookup\<close>

lemma FindSocket_loop_Some:
  "FindSocket_loop pool ch = Some a \<Longrightarrow>
     \<exists>s. (a, s) \<in> set pool \<and> IsAllocated s \<and> channel s = ch"
  by (induction pool ch rule: FindSocket_loop.induct) (auto split: if_splits)

lemma FindSocket_secure_loop_Some:
  "FindSocket_secure_loop pool ch sec = Some a \<Longrightarrow>
     \<exists>s. (a, s) \<in> set pool \<and> IsAllocated s \<and> channel s = ch \<and> IsSecure s = sec"
  by (induction pool ch sec rule: FindSocket_secure_loop.induct) (auto split: if_splits)

lemma one_socket_per_address:
  "distinct (map fst pool) \<Longrightarrow> (a, s) \<in> set pool \<Longrightarrow> (a, s') \<in> set pool \<Longrightarrow> s = s'"
  by (meson eq_key_imp_eq_value)

text \<open>
  Claim C3. For every state of the socket pool and every channel number,
  \<^verbatim>\<open>FindSocket(channel)\<close> returns null or the address of a socket of the pool that is
  allocated and has that channel, and \<^verbatim>\<open>FindSocket(channel, secure)\<close> returns null or the
  address of a socket of the pool that is allocated, has that channel and has that secure
  flag. Neither returns an unallocated socket: where every socket of the pool has its own
  address, the socket at the returned address is allocated and matches.
\<close>

theorem FindSocket_returns_allocated_match:
  "(FindSocket m ch = Some a \<longrightarrow>
      (\<exists>s. (a, s) \<in> set (sockets m) \<and> IsAllocated s \<and> channel s = ch) \<and>
      (distinct (map fst (sockets m)) \<longrightarrow>
         (\<forall>s. (a, s) \<in> set (sockets m) \<longrightarrow> IsAllocated s \<and> channel s = ch))) \<and>
   (FindSocket_secure m ch sec = Some a \<longrightarrow>
      (\<exists>s. (a, s) \<in> set (sockets m) \<and> IsAllocated s \<and> channel s = ch \<and> IsSecure s = sec) \<and>
      (distinct (map fst (sockets m)) \<longrightarrow>
         (\<forall>s. (a, s) \<in> set (sockets m) \<longrightarrow>
            IsAllocated s \<and> channel s = ch \<and> IsSecure s = sec)))"
proof (intro conjI impI allI)
  assume "FindSocket m ch = Some a"
  then show ex: "\<exists>s. (a, s) \<in> set (sockets m) \<and> IsAllocated s \<and> channel s = ch"
    unfolding FindSocket_def by (rule FindSocket_loop_Some)
  fix s assume "distinct (map fst (sockets m))" and "(a, s) \<in> set (sockets m)"
  with ex show "IsAllocated s" and "channel s = ch"
    by (auto dest: one_socket_per_address)
next
  assume "FindSocket_secure m ch sec = Some a"
  then show ex: "\<exists>s. (a, s) \<in> set (sockets m) \<and> IsAllocated s \<and> channel s = ch \<and>
      IsSecure s = sec"
    unfolding FindSocket_secure_def by (rule FindSocket_secure_loop_Some)
  fix s assume "distinct (map fst (sockets m))" and "(a, s) \<in> set (sockets m)"
  with ex show "IsAllocated s" and "channel s = ch" and "IsSecure s = sec"
    by (auto dest: one_socket_per_address)
qed

theorem FindSocket_returns_allocated_match_witness:
  "FindSocket three_socket_modem 0 = Some 100 \<and>
   FindSocket_secure three_socket_modem 0 True = Some 200 \<and>
   distinct (map fst (sockets three_socket_modem)) \<and>
   (\<exists>s. (100, s) \<in> set (sockets three_socket_modem) \<and> IsAllocated s \<and> channel s = 0) \<and>
   (\<exists>s. (200, s) \<in> set (sockets three_socket_modem) \<and>
      IsAllocated s \<and> channel s = 0 \<and> IsSecure s = True)"
proof -
  have plain: "FindSocket three_socket_modem 0 = Some 100"
    by (simp add: FindSocket_def three_socket_modem_def IsAllocated_def)
  have tls: "FindSocket_secure three_socket_modem 0 True = Some 200"
    by (simp add: FindSocket_secure_def three_socket_modem_def IsAllocated_def IsSecure_def)
  have own: "distinct (map fst (sockets three_socket_modem))"
    by (simp add: three_socket_modem_def)
  from FindSocket_returns_allocated_match [of three_socket_modem 0 100 True]
       FindSocket_returns_allocated_match [of three_socket_modem 0 200 True]
       plain tls own
  show ?thesis by blast
qed

section \<open>The socket pool\<close>










lemma sockets_plain_then_secure:
  "sockets plain_then_secure =
     [(100, \<lparr>channel = 0, secure = False, allocated = True, host = ''example.com'', port = 80\<rparr>),
      (200, \<lparr>channel = 0, secure = True, allocated = True, host = ''example.com'', port = 443\<rparr>)]"
  by (simp add: plain_then_secure_def CreateSocket_def single_channel_hook_def
      FindSocket_secure_def fresh_modem_def Modem_ctor_def Socket_ctor_def
      IsSecure_def IsAllocated_def)






text \<open>
  Claim C5. For every host, port and secure flag, if the vendor hook \<^verbatim>\<open>TryAllocateImpl\<close>
  rejects the request, \<^verbatim>\<open>CreateSocket(host, port, secure)\<close> returns a null pointer and the
  socket pool is exactly as before the call.
\<close>

theorem CreateSocket_rejected:
  assumes "TryAllocateImpl m (Socket_ctor h p tls) = None"
  shows "fst (CreateSocket TryAllocateImpl a h p tls m) = None \<and>
         sockets (snd (CreateSocket TryAllocateImpl a h p tls m)) = sockets m"
  using assms by (simp add: CreateSocket_def)

theorem CreateSocket_rejected_witness:
  "single_channel_hook plain_then_secure (Socket_ctor ''example.com'' 443 True) = None \<and>
   fst (CreateSocket single_channel_hook 300 ''example.com'' 443 True plain_then_secure) = None \<and>
   sockets (snd (CreateSocket single_channel_hook 300 ''example.com'' 443 True plain_then_secure))
     = sockets plain_then_secure"
proof -
  have full: "single_channel_hook plain_then_secure (Socket_ctor ''example.com'' 443 True) = None"
    by (simp add: single_channel_hook_def FindSocket_secure_def sockets_plain_then_secure
        Socket_ctor_def IsSecure_def IsAllocated_def)
  from CreateSocket_rejected
         [of single_channel_hook plain_then_secure "''example.com''" 443 True 300, OF full] full
  show ?thesis by simp
qed

end
